theory Spec2Isabelle
  imports Main "HOL-Library.Multiset"
begin

section \<open>The source file\<close>

text \<open>
  The repository consists of one file, \<^verbatim>\<open>Sources/VLCBridging/libvlc_bridging.h\<close>.
  It is embedded as the string of its characters: a three-line comment, an empty line
  and twelve \<^verbatim>\<open>#include\<close> lines. The file has fifteen newline characters; its last
  line is not terminated by one.
\<close>

definition source_files :: "string list" where
  "source_files = [''Sources/VLCBridging/libvlc_bridging.h'']"

definition NL :: char where
  "NL = CHR 0x0A"

definition libvlc_bridging_h :: string where
  "libvlc_bridging_h =
     ''/* Include all libVLC header that will'' @ NL #
     '' * be needed for VLCSwift:'' @ NL #
     '' */'' @ NL #
     '''' @ NL #
     ''#include <vlc/libvlc.h>'' @ NL #
     ''#include <vlc/libvlc_renderer_discoverer.h>'' @ NL #
     ''#include <vlc/libvlc_picture.h>'' @ NL #
     ''#include <vlc/libvlc_media.h>'' @ NL #
     ''#include <vlc/libvlc_media_player.h>'' @ NL #
     ''#include <vlc/libvlc_media_list.h>'' @ NL #
     ''#include <vlc/libvlc_media_list_player.h>'' @ NL #
     ''#include <vlc/libvlc_media_library.h>'' @ NL #
     ''#include <vlc/libvlc_media_discoverer.h>'' @ NL #
     ''#include <vlc/libvlc_events.h>'' @ NL #
     ''#include <vlc/libvlc_dialog.h>'' @ NL #
     ''#include <vlc/libvlc_version.h>''"

section \<open>Lines, comments and directives\<close>

text \<open>
  A file is read the way a C preprocessor reads it: it is split into lines at the
  newline characters (a last line need not be terminated), comments are replaced by
  a space, and a line whose first character that is not white space is \<^verbatim>\<open>#\<close>
  is a directive. Before that, a backslash at the end of a line joins the line with
  the next one. String and character literals and trigraphs are left out: the file
  has no quote and no question mark (and no backslash).
\<close>

fun splice :: "string \<Rightarrow> string" where
  "splice (a # b # cs) = (if a = CHR 0x5C \<and> b = CHR 0x0A then splice cs else a # splice (b # cs))"
| "splice cs = cs"

fun lines_acc :: "string \<Rightarrow> string \<Rightarrow> string list" where
  "lines_acc cur [] = (if cur = [] then [] else [rev cur])"
| "lines_acc cur (c # cs) =
     (if c = NL then rev cur # lines_acc [] cs else lines_acc (c # cur) cs)"

definition split_lines :: "string \<Rightarrow> string list" where
  "split_lines txt = lines_acc [] txt"

definition is_space :: "char \<Rightarrow> bool" where
  "is_space c = (c = CHR '' '' \<or> c = CHR 0x09 \<or> c = CHR 0x0B \<or> c = CHR 0x0C \<or> c = CHR 0x0D)"

definition is_ident :: "char \<Rightarrow> bool" where
  "is_ident c =
     (c \<in> set ''abcdefghijklmnopqrstuvwxyzABCDEFGHIJKLMNOPQRSTUVWXYZ0123456789_'')"

definition trim :: "string \<Rightarrow> string" where
  "trim s = rev (dropWhile is_space (rev (dropWhile is_space s)))"

text \<open>
  \<open>strip_comments in_c l\<close> removes the comments of one line; \<open>in_c\<close> says whether the
  line starts inside a block comment, and the result says whether it ends inside one.
\<close>

fun strip_comments :: "bool \<Rightarrow> string \<Rightarrow> string \<times> bool" where
  "strip_comments in_c [] = ([], in_c)"
| "strip_comments in_c [a] = (if in_c then ([], True) else ([a], False))"
| "strip_comments in_c (a # b # cs) =
     (if in_c then
        (if a = CHR ''*'' \<and> b = CHR ''/''
         then (case strip_comments False cs of (r, f) \<Rightarrow> (CHR '' '' # r, f))
         else strip_comments True (b # cs))
      else if a = CHR ''/'' \<and> b = CHR ''*'' then strip_comments True cs
      else if a = CHR ''/'' \<and> b = CHR ''/'' then ([], False)
      else (case strip_comments False (b # cs) of (r, f) \<Rightarrow> (a # r, f)))"

datatype include_kind = Angle | Quote

datatype directive =
    Include include_kind string
  | If_dir string
  | Ifdef string
  | Ifndef string
  | Elif_dir string
  | Else_dir
  | Endif_dir
  | Define string string
  | Undef string
  | Pragma_once
  | Error_dir string
  | Ignored_dir string
  | Unsupported_dir string
  | Invalid_dir string

datatype line = Blank | Comment | Directive directive | Code string

text \<open>
  The argument of \<^verbatim>\<open>#include\<close>: a name in angle brackets or in quotes, which must not
  be empty. An argument that starts like a macro name would have to be expanded first,
  which the model does not do.
\<close>

definition parse_include :: "string \<Rightarrow> directive" where
  "parse_include args =
     (case args of
        [] \<Rightarrow> Invalid_dir ''include''
      | c # cs \<Rightarrow>
          if c = CHR ''<'' \<and> CHR ''>'' \<in> set cs \<and> takeWhile (\<lambda>x. x \<noteq> CHR ''>'') cs \<noteq> []
            then Include Angle (takeWhile (\<lambda>x. x \<noteq> CHR ''>'') cs)
          else if c = CHR 0x22 \<and> CHR 0x22 \<in> set cs \<and> takeWhile (\<lambda>x. x \<noteq> CHR 0x22) cs \<noteq> []
            then Include Quote (takeWhile (\<lambda>x. x \<noteq> CHR 0x22) cs)
          else if is_ident c then Unsupported_dir ''include''
          else Invalid_dir ''include'')"

text \<open>
  \<open>parse_directive\<close> gets the text after the \<^verbatim>\<open>#\<close>. The controlling expression of
  \<^verbatim>\<open>#if\<close> and \<^verbatim>\<open>#elif\<close> is kept as text. The directives without an error of
  their own (the empty one, \<^verbatim>\<open>#line\<close>, \<^verbatim>\<open>#warning\<close>, \<^verbatim>\<open>#ident\<close>, other pragmas)
  are \<open>Ignored_dir\<close>; the ones that the model does not interpret (\<^verbatim>\<open>#include_next\<close>,
  \<^verbatim>\<open>#import\<close>, the conditionals of C23) are \<open>Unsupported_dir\<close>.
\<close>

definition parse_directive :: "string \<Rightarrow> directive" where
  "parse_directive rest =
     (let r = dropWhile is_space rest;
          name = takeWhile is_ident r;
          args = trim (dropWhile is_ident r);
          arg1 = takeWhile is_ident args
      in if name = ''include'' then parse_include args
         else if name = ''if'' then If_dir args
         else if name = ''ifdef'' then Ifdef arg1
         else if name = ''ifndef'' then Ifndef arg1
         else if name = ''elif'' then Elif_dir args
         else if name = ''else'' then Else_dir
         else if name = ''endif'' then Endif_dir
         else if name = ''define'' then Define arg1 (trim (dropWhile is_ident args))
         else if name = ''undef'' then Undef arg1
         else if name = ''pragma'' then (if args = ''once'' then Pragma_once else Ignored_dir name)
         else if name = ''error'' then Error_dir args
         else if name = ''include_next'' \<or> name = ''import''
                 \<or> name = ''elifdef'' \<or> name = ''elifndef'' then Unsupported_dir name
         else if name = [] \<or> name = ''line'' \<or> name = ''warning'' \<or> name = ''ident''
                 \<or> name = ''sccs'' then Ignored_dir name
         else Invalid_dir name)"

definition classify_line :: "bool \<Rightarrow> string \<Rightarrow> string \<Rightarrow> line" where
  "classify_line in_c raw stripped =
     (if list_all is_space stripped
        then (if list_all is_space raw \<and> \<not> in_c then Blank else Comment)
      else (case trim stripped of
              [] \<Rightarrow> Blank
            | c # cs \<Rightarrow> if c = CHR ''#'' then Directive (parse_directive cs) else Code (c # cs)))"

fun classify :: "bool \<Rightarrow> string list \<Rightarrow> line list" where
  "classify in_c [] = []"
| "classify in_c (l # ls) =
     (case strip_comments in_c l of
        (t, in_c') \<Rightarrow> classify_line in_c l t # classify in_c' ls)"

definition file_lines :: "string \<Rightarrow> line list" where
  "file_lines txt = classify False (split_lines (splice txt))"

text \<open>Whether a file ends inside a block comment.\<close>

fun final_comment :: "bool \<Rightarrow> string list \<Rightarrow> bool" where
  "final_comment in_c [] = in_c"
| "final_comment in_c (l # ls) = final_comment (snd (strip_comments in_c l)) ls"

definition ends_in_comment :: "string \<Rightarrow> bool" where
  "ends_in_comment txt = final_comment False (split_lines (splice txt))"

fun directives :: "line list \<Rightarrow> directive list" where
  "directives [] = []"
| "directives (Directive d # ls) = d # directives ls"
| "directives (_ # ls) = directives ls"

fun include_paths :: "directive list \<Rightarrow> string list" where
  "include_paths [] = []"
| "include_paths (Include k p # ds) = p # include_paths ds"
| "include_paths (_ # ds) = include_paths ds"

definition basename :: "string \<Rightarrow> string" where
  "basename p = rev (takeWhile (\<lambda>c. c \<noteq> CHR ''/'') (rev p))"

text \<open>The headers as the specification enumerates them.\<close>

definition spec_headers :: "string list" where
  "spec_headers =
     [''libvlc.h'', ''libvlc_renderer_discoverer.h'', ''libvlc_picture.h'',
      ''libvlc_media.h'', ''libvlc_media_player.h'', ''libvlc_media_list.h'',
      ''libvlc_media_list_player.h'', ''libvlc_media_library.h'',
      ''libvlc_media_discoverer.h'', ''libvlc_events.h'', ''libvlc_dialog.h'',
      ''libvlc_version.h'']"

section \<open>Preprocessing\<close>

text \<open>
  The meaning of the file is what a preprocessor does with it. The included headers
  are not part of the repository, so they are a parameter: an environment maps a
  header name, in the name space of the search path (\<open>Angle\<close>) or in the one of the
  files beside the including file (\<open>Quote\<close>), to the text of the header, or to
  \<open>None\<close> when there is no such file. A quoted name that is not found is looked up
  in the search path.

  The state holds the macros with their bodies, the files marked \<^verbatim>\<open>#pragma once\<close>,
  the text lines passed on to the compiler (macros are not expanded in them) and the
  errors reported so far. The preprocessor behaves as GCC's does:
  \<^item> an error is reported and preprocessing goes on: \<^verbatim>\<open>#error\<close>, a conditional
    that is not balanced, a bad macro name, an inclusion nested too deeply;
  \<^item> a file that is not found ends preprocessing at once (a fatal error);
  \<^item> in a branch that is skipped only the conditional directives are looked at.

  A directive that the model does not interpret is reported as \<open>Unsupported\<close> when
  it stands in a branch that is taken, and preprocessing goes on.

  The value of a controlling expression is a parameter as well: \<open>ev\<close> maps the macros
  and the text of the expression to its truth value, or to \<open>None\<close> when the expression
  is not well-formed.

  Conditionals are kept on a stack that is local to each file. The first component of
  an entry says whether the current branch is taken, the second whether a branch has
  been taken so that the later ones are skipped (it is set also when the whole
  conditional lies in a skipped branch), the third whether \<^verbatim>\<open>#else\<close> has been seen.
  The number \<open>d\<close> is the number of levels of inclusion that remain: a file at level
  \<open>0\<close> cannot include. For GCC's limit \<open>m\<close> on the depth, the translation unit
  itself counting as one level, the unit is preprocessed with \<open>d = m - 1\<close>.
\<close>

type_synonym file_id = "include_kind \<times> string"

type_synonym env = "include_kind \<Rightarrow> string \<Rightarrow> string option"

type_synonym macro_table = "(string \<times> string) list"

type_synonym eval = "macro_table \<Rightarrow> string \<Rightarrow> bool option"

type_synonym cond = "bool \<times> bool \<times> bool"

datatype pp_error =
    Missing_file string
  | Include_depth_exceeded string
  | Error_directive string
  | Unterminated_conditional
  | Unterminated_comment
  | Else_without_if
  | Else_after_else
  | Elif_without_if
  | Elif_after_else
  | Endif_without_if
  | Bad_condition string
  | Bad_macro_name string
  | Unsupported string
  | Invalid_directive string

record pp_state =
  macros :: macro_table
  once_files :: "file_id set"
  emitted :: "string list"
  diagnostics :: "pp_error list"

text \<open>A run ends at the end of the unit or, before it, at a fatal error.\<close>

datatype outcome = Finished pp_state | Fatal pp_state

definition search_path :: "env \<Rightarrow> string \<Rightarrow> (file_id \<times> string) option" where
  "search_path env p =
     (case env Angle p of None \<Rightarrow> None | Some txt \<Rightarrow> Some ((Angle, p), txt))"

fun resolve :: "env \<Rightarrow> include_kind \<Rightarrow> string \<Rightarrow> (file_id \<times> string) option" where
  "resolve env Angle p = search_path env p"
| "resolve env Quote p =
     (case env Quote p of None \<Rightarrow> search_path env p | Some txt \<Rightarrow> Some ((Quote, p), txt))"

fun active :: "cond list \<Rightarrow> bool" where
  "active [] = True"
| "active ((b, t, e) # stk) = b"

definition report :: "pp_error \<Rightarrow> pp_state \<Rightarrow> pp_state" where
  "report e s = s\<lparr>diagnostics := diagnostics s @ [e]\<rparr>"

definition report_if :: "bool \<Rightarrow> pp_error \<Rightarrow> pp_state \<Rightarrow> pp_state" where
  "report_if b e s = (if b then report e s else s)"

text \<open>At the end of a file, each conditional that is still open is an error.\<close>

fun unterminated :: "cond list \<Rightarrow> pp_state \<Rightarrow> pp_state" where
  "unterminated [] s = s"
| "unterminated (c # stk) s = unterminated stk (report Unterminated_conditional s)"

definition comment_check :: "string \<Rightarrow> pp_state \<Rightarrow> pp_state" where
  "comment_check txt s = report_if (ends_in_comment txt) Unterminated_comment s"

definition valid_name :: "string \<Rightarrow> bool" where
  "valid_name n = (n \<noteq> [] \<and> hd n \<notin> set ''0123456789'' \<and> n \<noteq> ''defined'')"

definition is_defined :: "pp_state \<Rightarrow> string \<Rightarrow> bool" where
  "is_defined s n = (map_of (macros s) n \<noteq> None)"

definition define_macro :: "string \<Rightarrow> string \<Rightarrow> pp_state \<Rightarrow> pp_state" where
  "define_macro n body s = s\<lparr>macros := (n, body) # filter (\<lambda>m. fst m \<noteq> n) (macros s)\<rparr>"

definition undef_macro :: "string \<Rightarrow> pp_state \<Rightarrow> pp_state" where
  "undef_macro n s = s\<lparr>macros := filter (\<lambda>m. fst m \<noteq> n) (macros s)\<rparr>"

text \<open>
  The entry that \<^verbatim>\<open>#if\<close>, \<^verbatim>\<open>#ifdef\<close> and \<^verbatim>\<open>#ifndef\<close> push: in a skipped branch
  the condition is not looked at; \<open>None\<close> stands for a condition in error, whose branch
  is skipped while a later one may still be taken.
\<close>

fun opened :: "bool \<Rightarrow> bool option \<Rightarrow> cond" where
  "opened False c = (False, True, False)"
| "opened True None = (False, False, False)"
| "opened True (Some c) = (c, c, False)"

text \<open>
  \<^verbatim>\<open>#elif\<close> and \<^verbatim>\<open>#else\<close> change the entry on top of the stack. After a branch
  that was taken, or in a conditional that is skipped as a whole, the branch of
  \<^verbatim>\<open>#elif\<close> is skipped and its condition is not looked at. Either directive after
  \<^verbatim>\<open>#else\<close> is an error.
\<close>

fun elif_entry :: "cond \<Rightarrow> bool option \<Rightarrow> cond" where
  "elif_entry (b, t, e) c = (if t then (False, True, False) else opened True c)"

fun elif_errors :: "cond \<Rightarrow> bool option \<Rightarrow> string \<Rightarrow> pp_state \<Rightarrow> pp_state" where
  "elif_errors (b, t, e) c x s =
     report_if (\<not> t \<and> c = None) (Bad_condition x) (report_if e Elif_after_else s)"

fun else_entry :: "cond \<Rightarrow> cond" where
  "else_entry (b, t, e) = (\<not> t, True, True)"

fun else_errors :: "cond \<Rightarrow> pp_state \<Rightarrow> pp_state" where
  "else_errors (b, t, e) s = report_if e Else_after_else s"

fun pp :: "eval \<Rightarrow> nat \<Rightarrow> env \<Rightarrow> file_id \<Rightarrow> line list \<Rightarrow> cond list \<Rightarrow> pp_state
           \<Rightarrow> outcome" where
  "pp ev d env cur [] stk s = Finished (unterminated stk s)"
| "pp ev d env cur (Blank # ls) stk s = pp ev d env cur ls stk s"
| "pp ev d env cur (Comment # ls) stk s = pp ev d env cur ls stk s"
| "pp ev d env cur (Code t # ls) stk s =
     pp ev d env cur ls stk (if active stk then s\<lparr>emitted := emitted s @ [t]\<rparr> else s)"
| "pp ev d env cur (Directive (Include k p) # ls) stk s =
     (if \<not> active stk then pp ev d env cur ls stk s
      else if d = 0 then pp ev d env cur ls stk (report (Include_depth_exceeded p) s)
      else (case resolve env k p of
              None \<Rightarrow> Fatal (report (Missing_file p) s)
            | Some (f, txt) \<Rightarrow>
                if f \<in> once_files s then pp ev d env cur ls stk s
                else (case pp ev (d - 1) env f (file_lines txt) [] s of
                        Fatal s' \<Rightarrow> Fatal s'
                      | Finished s' \<Rightarrow> pp ev d env cur ls stk (comment_check txt s'))))"
| "pp ev d env cur (Directive (If_dir x) # ls) stk s =
     (if \<not> active stk then pp ev d env cur ls (opened False None # stk) s
      else pp ev d env cur ls (opened True (ev (macros s) x) # stk)
             (report_if (ev (macros s) x = None) (Bad_condition x) s))"
| "pp ev d env cur (Directive (Ifdef n) # ls) stk s =
     (if \<not> active stk then pp ev d env cur ls (opened False None # stk) s
      else if valid_name n then pp ev d env cur ls (opened True (Some (is_defined s n)) # stk) s
      else pp ev d env cur ls (opened True None # stk) (report (Bad_macro_name n) s))"
| "pp ev d env cur (Directive (Ifndef n) # ls) stk s =
     (if \<not> active stk then pp ev d env cur ls (opened False None # stk) s
      else if valid_name n then pp ev d env cur ls (opened True (Some (\<not> is_defined s n)) # stk) s
      else pp ev d env cur ls (opened True None # stk) (report (Bad_macro_name n) s))"
| "pp ev d env cur (Directive (Elif_dir x) # ls) stk s =
     (case stk of
        [] \<Rightarrow> pp ev d env cur ls [] (report Elif_without_if s)
      | c # r \<Rightarrow>
          pp ev d env cur ls (elif_entry c (ev (macros s) x) # r)
            (elif_errors c (ev (macros s) x) x s))"
| "pp ev d env cur (Directive Else_dir # ls) stk s =
     (case stk of
        [] \<Rightarrow> pp ev d env cur ls [] (report Else_without_if s)
      | c # r \<Rightarrow> pp ev d env cur ls (else_entry c # r) (else_errors c s))"
| "pp ev d env cur (Directive Endif_dir # ls) stk s =
     (case stk of
        [] \<Rightarrow> pp ev d env cur ls [] (report Endif_without_if s)
      | c # r \<Rightarrow> pp ev d env cur ls r s)"
| "pp ev d env cur (Directive (Define n body) # ls) stk s =
     pp ev d env cur ls stk
       (if \<not> active stk then s
        else if valid_name n then define_macro n body s else report (Bad_macro_name n) s)"
| "pp ev d env cur (Directive (Undef n) # ls) stk s =
     pp ev d env cur ls stk
       (if \<not> active stk then s
        else if valid_name n then undef_macro n s else report (Bad_macro_name n) s)"
| "pp ev d env cur (Directive Pragma_once # ls) stk s =
     pp ev d env cur ls stk
       (if active stk then s\<lparr>once_files := insert cur (once_files s)\<rparr> else s)"
| "pp ev d env cur (Directive (Error_dir m) # ls) stk s =
     pp ev d env cur ls stk (report_if (active stk) (Error_directive m) s)"
| "pp ev d env cur (Directive (Ignored_dir n) # ls) stk s = pp ev d env cur ls stk s"
| "pp ev d env cur (Directive (Unsupported_dir n) # ls) stk s =
     pp ev d env cur ls stk (report_if (active stk) (Unsupported n) s)"
| "pp ev d env cur (Directive (Invalid_dir n) # ls) stk s =
     pp ev d env cur ls stk (report_if (active stk) (Invalid_directive n) s)"

text \<open>One \<^verbatim>\<open>#include\<close> in a taken branch: the step of \<open>pp\<close> on its own.\<close>

definition include_file :: "eval \<Rightarrow> nat \<Rightarrow> env \<Rightarrow> include_kind \<Rightarrow> string \<Rightarrow> pp_state
                            \<Rightarrow> outcome" where
  "include_file ev d env k p s =
     (if d = 0 then Finished (report (Include_depth_exceeded p) s)
      else (case resolve env k p of
              None \<Rightarrow> Fatal (report (Missing_file p) s)
            | Some (f, txt) \<Rightarrow>
                if f \<in> once_files s then Finished s
                else (case pp ev (d - 1) env f (file_lines txt) [] s of
                        Fatal s' \<Rightarrow> Fatal s'
                      | Finished s' \<Rightarrow> Finished (comment_check txt s'))))"

text \<open>
  Headers of the search path included one after the other, up to the first fatal error.
\<close>

fun include_all :: "eval \<Rightarrow> nat \<Rightarrow> env \<Rightarrow> string list \<Rightarrow> pp_state \<Rightarrow> outcome" where
  "include_all ev d env [] s = Finished s"
| "include_all ev d env (p # ps) s =
     (case include_file ev d env Angle p s of
        Fatal s' \<Rightarrow> Fatal s'
      | Finished s' \<Rightarrow> include_all ev d env ps s')"


definition initial_state :: pp_state where
  "initial_state = \<lparr>macros = [], once_files = {}, emitted = [], diagnostics = []\<rparr>"



fun state_of :: "outcome \<Rightarrow> pp_state" where
  "state_of (Finished s) = s"
| "state_of (Fatal s) = s"

fun is_fatal :: "outcome \<Rightarrow> bool" where
  "is_fatal (Finished s) = False"
| "is_fatal (Fatal s) = True"

definition errors_of :: "outcome \<Rightarrow> pp_error list" where
  "errors_of r = diagnostics (state_of r)"


fun is_missing :: "pp_error \<Rightarrow> bool" where
  "is_missing (Missing_file p) = True"
| "is_missing e = False"

definition listed_paths :: "string list" where
  "listed_paths = map (\<lambda>h. ''vlc/'' @ h) spec_headers"

section \<open>What the claims speak of\<close>

text \<open>The lines of a file that are neither blank, nor comment, nor \<^verbatim>\<open>#include\<close>.\<close>

fun other_lines :: "line list \<Rightarrow> line list" where
  "other_lines [] = []"
| "other_lines (Blank # ls) = other_lines ls"
| "other_lines (Comment # ls) = other_lines ls"
| "other_lines (Directive (Include k p) # ls) = other_lines ls"
| "other_lines (l # ls) = l # other_lines ls"

text \<open>The lines that are passed on to the compiler.\<close>

fun code_lines :: "line list \<Rightarrow> string list" where
  "code_lines [] = []"
| "code_lines (Code t # ls) = t # code_lines ls"
| "code_lines (_ # ls) = code_lines ls"

text \<open>
  The directives that read or change the state of the preprocessor: conditionals (an
  include guard is \<^verbatim>\<open>#ifndef\<close>, \<^verbatim>\<open>#define\<close>, \<^verbatim>\<open>#endif\<close>), macro definitions
  and \<^verbatim>\<open>#pragma once\<close>.
\<close>

fun state_directives :: "directive list \<Rightarrow> directive list" where
  "state_directives [] = []"
| "state_directives (Include k p # ds) = state_directives ds"
| "state_directives (Error_dir m # ds) = state_directives ds"
| "state_directives (Ignored_dir n # ds) = state_directives ds"
| "state_directives (Invalid_dir n # ds) = state_directives ds"
| "state_directives (d # ds) = d # state_directives ds"

definition has_once :: "line list \<Rightarrow> bool" where
  "has_once ls = (Pragma_once \<in> set (directives ls))"

text \<open>The files that the \<^verbatim>\<open>#include\<close> directives ask for, with the form of the request.\<close>

fun requests :: "directive list \<Rightarrow> file_id list" where
  "requests [] = []"
| "requests (Include k p # ds) = (k, p) # requests ds"
| "requests (_ # ds) = requests ds"

fun all_resolve :: "env \<Rightarrow> string list \<Rightarrow> bool" where
  "all_resolve env [] = True"
| "all_resolve env (p # ps) = (env Angle p \<noteq> None \<and> all_resolve env ps)"

fun first_absent :: "env \<Rightarrow> string list \<Rightarrow> string option" where
  "first_absent env [] = None"
| "first_absent env (p # ps) = (if env Angle p = None then Some p else first_absent env ps)"


text \<open>
  A run from the state \<open>s\<close> only adds to the errors of \<open>s\<close>, and when it is cut short,
  the last error that it has added is a file that was not found.
\<close>

definition grows :: "pp_state \<Rightarrow> outcome \<Rightarrow> bool" where
  "grows s r =
     (\<exists>es. errors_of r = diagnostics s @ es \<and>
        (if is_fatal r then es \<noteq> [] \<and> is_missing (last es) else True))"


subsection \<open>Environments to run the file in\<close>

text \<open>
  An installation of the framework in which every listed header is a guarded header
  that declares one name; the same one without \<^verbatim>\<open>vlc/libvlc_events.h\<close>; one whose
  \<^verbatim>\<open>vlc/libvlc_media_player.h\<close> includes a header that is not installed; one whose
  \<^verbatim>\<open>vlc/libvlc.h\<close> refuses the platform; one that does so and lacks
  \<^verbatim>\<open>vlc/libvlc_events.h\<close> as well; and one in which the headers have no guard.
\<close>

definition guard_name :: "string \<Rightarrow> string" where
  "guard_name p = map (\<lambda>c. if is_ident c then c else CHR ''_'') p"

definition header_decl :: "string \<Rightarrow> string" where
  "header_decl p = ''extern int '' @ guard_name p @ ''_decl;''"

definition guarded_header :: "string \<Rightarrow> string" where
  "guarded_header p =
     ''#ifndef '' @ guard_name p @ NL #
     ''#define '' @ guard_name p @ '' 1'' @ NL #
     header_decl p @ NL #
     ''#endif'' @ [NL]"

definition installed :: env where
  "installed k p =
     (if k = Angle \<and> p \<in> set listed_paths then Some (guarded_header p) else None)"





definition unguarded :: env where
  "unguarded k p =
     (if k = Angle \<and> p \<in> set listed_paths then Some (header_decl p @ [NL]) else None)"

text \<open>An environment in which the file itself can be included by a translation unit.\<close>

definition with_bridging :: "env \<Rightarrow> env" where
  "with_bridging env k p =
     (if k = Quote \<and> p = ''libvlc_bridging.h'' then Some libvlc_bridging_h else env k p)"

definition main_id :: file_id where
  "main_id = (Quote, ''main.c'')"

text \<open>The text that reaches the compiler; nothing when preprocessing is cut short.\<close>

fun emitted_of :: "outcome \<Rightarrow> string list" where
  "emitted_of (Fatal s) = []"
| "emitted_of (Finished s) = emitted s"

definition include_twice :: "line list" where
  "include_twice =
     [Directive (Include Quote ''libvlc_bridging.h''),
      Directive (Include Quote ''libvlc_bridging.h'')]"

text \<open>
  An installation whose \<^verbatim>\<open>vlc/libvlc.h\<close> has the shape of a header of the
  framework: a guard, a choice by \<^verbatim>\<open>#if\<close> and \<^verbatim>\<open>#elif\<close>, a branch for C++, a
  macro that runs over two lines, and a block that is switched off. With it comes an
  evaluation of the controlling expressions that occur, under a compiler that defines
  \<^verbatim>\<open>__GNUC__\<close>.
\<close>

definition framework_header :: string where
  "framework_header =
     ''#ifndef VLC_LIBVLC_H'' @ NL #
     ''#define VLC_LIBVLC_H 1'' @ NL #
     ''#if defined (_WIN32) && defined (DLL_EXPORT)'' @ NL #
     ''# define LIBVLC_API __declspec(dllexport)'' @ NL #
     ''#elif defined (__GNUC__) && (__GNUC__ >= 4)'' @ NL #
     ''# define LIBVLC_API __attribute__((used))'' @ NL #
     ''#else'' @ NL #
     ''# define LIBVLC_API'' @ NL #
     ''#endif'' @ NL #
     ''# ifdef __cplusplus'' @ NL #
     ''extern C {'' @ NL #
     ''# endif'' @ NL #
     ''#define LIBVLC_VERSION(maj,min,rev,extra) '' @ CHR 0x5C # NL #
     ''        ((maj << 24) | (min << 16) | (rev << 8) | (extra))'' @ NL #
     ''#if 0'' @ NL #
     ''#error never'' @ NL #
     ''#include <vlc/absent.h>'' @ NL #
     ''#if WHATEVER(1'' @ NL #
     ''#endif'' @ NL #
     ''#endif'' @ NL #
     ''LIBVLC_API void libvlc_release(void *);'' @ NL #
     ''# ifdef __cplusplus'' @ NL #
     ''}'' @ NL #
     ''# endif'' @ NL #
     ''#endif /* VLC_LIBVLC_H */'' @ [NL]"


definition gnu_eval :: eval where
  "gnu_eval ms x =
     (if x = ''0'' then Some False
      else if x = ''1'' then Some True
      else if x = ''defined (_WIN32) && defined (DLL_EXPORT)''
        then Some (map_of ms ''_WIN32'' \<noteq> None \<and> map_of ms ''DLL_EXPORT'' \<noteq> None)
      else if x = ''defined (__GNUC__) && (__GNUC__ >= 4)''
        then Some (map_of ms ''__GNUC__'' \<noteq> None)
      else None)"


section \<open>The structure of the file\<close>

lemma bridging_split:
  "split_lines libvlc_bridging_h =
     [''/* Include all libVLC header that will'',
      '' * be needed for VLCSwift:'',
      '' */'',
      '''',
      ''#include <vlc/libvlc.h>'',
      ''#include <vlc/libvlc_renderer_discoverer.h>'',
      ''#include <vlc/libvlc_picture.h>'',
      ''#include <vlc/libvlc_media.h>'',
      ''#include <vlc/libvlc_media_player.h>'',
      ''#include <vlc/libvlc_media_list.h>'',
      ''#include <vlc/libvlc_media_list_player.h>'',
      ''#include <vlc/libvlc_media_library.h>'',
      ''#include <vlc/libvlc_media_discoverer.h>'',
      ''#include <vlc/libvlc_events.h>'',
      ''#include <vlc/libvlc_dialog.h>'',
      ''#include <vlc/libvlc_version.h>'']"
  by code_simp

lemma bridging_lines:
  "file_lines libvlc_bridging_h =
     [Comment, Comment, Comment, Blank,
      Directive (Include Angle ''vlc/libvlc.h''),
      Directive (Include Angle ''vlc/libvlc_renderer_discoverer.h''),
      Directive (Include Angle ''vlc/libvlc_picture.h''),
      Directive (Include Angle ''vlc/libvlc_media.h''),
      Directive (Include Angle ''vlc/libvlc_media_player.h''),
      Directive (Include Angle ''vlc/libvlc_media_list.h''),
      Directive (Include Angle ''vlc/libvlc_media_list_player.h''),
      Directive (Include Angle ''vlc/libvlc_media_library.h''),
      Directive (Include Angle ''vlc/libvlc_media_discoverer.h''),
      Directive (Include Angle ''vlc/libvlc_events.h''),
      Directive (Include Angle ''vlc/libvlc_dialog.h''),
      Directive (Include Angle ''vlc/libvlc_version.h'')]"
  by code_simp

text \<open>The file has none of the characters whose treatment the lexer leaves out.\<close>

lemma bridging_plain_text:
  "filter (\<lambda>c. c = CHR 0x5C \<or> c = CHR 0x22 \<or> c = CHR 0x27 \<or> c = CHR ''?'') libvlc_bridging_h = []"
  by code_simp

lemma bridging_comment_closed: "\<not> ends_in_comment libvlc_bridging_h"
  by code_simp

lemma bridging_lines_listed:
  "file_lines libvlc_bridging_h =
     [Comment, Comment, Comment, Blank] @ map (\<lambda>p. Directive (Include Angle p)) listed_paths"
  by (simp add: bridging_lines listed_paths_def spec_headers_def)

lemma framework_lines:
  "file_lines framework_header =
     [Directive (Ifndef ''VLC_LIBVLC_H''),
      Directive (Define ''VLC_LIBVLC_H'' ''1''),
      Directive (If_dir ''defined (_WIN32) && defined (DLL_EXPORT)''),
      Directive (Define ''LIBVLC_API'' ''__declspec(dllexport)''),
      Directive (Elif_dir ''defined (__GNUC__) && (__GNUC__ >= 4)''),
      Directive (Define ''LIBVLC_API'' ''__attribute__((used))''),
      Directive Else_dir,
      Directive (Define ''LIBVLC_API'' []),
      Directive Endif_dir,
      Directive (Ifdef ''__cplusplus''),
      Code ''extern C {'',
      Directive Endif_dir,
      Directive (Define ''LIBVLC_VERSION''
        ''(maj,min,rev,extra)         ((maj << 24) | (min << 16) | (rev << 8) | (extra))''),
      Directive (If_dir ''0''),
      Directive (Error_dir ''never''),
      Directive (Include Angle ''vlc/absent.h''),
      Directive (If_dir ''WHATEVER(1''),
      Directive Endif_dir,
      Directive Endif_dir,
      Code ''LIBVLC_API void libvlc_release(void *);'',
      Directive (Ifdef ''__cplusplus''),
      Code ''}'',
      Directive Endif_dir,
      Directive Endif_dir]"
  by code_simp

section \<open>Preprocessing the file\<close>

lemma pp_Include:
  "active stk \<Longrightarrow> pp ev d env cur (Directive (Include k p) # ls) stk s =
     (case include_file ev d env k p s of
        Fatal s' \<Rightarrow> Fatal s'
      | Finished s' \<Rightarrow> pp ev d env cur ls stk s')"
  by (simp add: include_file_def split: option.splits prod.splits outcome.splits)

lemma pp_includes:
  "pp ev d env cur (map (\<lambda>p. Directive (Include Angle p)) ps) [] s = include_all ev d env ps s"
proof (induction ps arbitrary: s)
  case Nil
  show ?case by simp
next
  case (Cons p ps)
  show ?case by (simp del: pp.simps add: pp_Include Cons.IH split: outcome.splits)
qed

text \<open>
  In every state and every environment the file does one thing: it includes the listed
  headers from the search path, one after the other.
\<close>

lemma pp_bridging:
  "pp ev d env cur (file_lines libvlc_bridging_h) [] s = include_all ev d env listed_paths s"
  by (simp only: bridging_lines_listed append.simps pp.simps pp_includes)


subsection \<open>Errors only accumulate, and only a missing file cuts a run short\<close>

lemma grows_Finished [simp]: "grows s (Finished s)"
  by (simp add: grows_def errors_of_def)

lemma grows_Missing [simp]: "grows s (Fatal (report (Missing_file p) s))"
  by (simp add: grows_def errors_of_def report_def)
















subsection \<open>The headers one after the other\<close>



lemma all_resolve_first_absent: "all_resolve env ps \<longleftrightarrow> first_absent env ps = None"
  by (induction ps) auto




lemma include_all_empty:
  "(\<And>p. p \<in> set ps \<Longrightarrow> env Angle p = Some []) \<Longrightarrow> include_all ev (Suc d) env ps s = Finished s"
proof (induction ps arbitrary: s)
  case Nil
  show ?case by simp
next
  case (Cons p ps)
  have "file_lines [] = []" by (simp add: file_lines_def split_lines_def)
  moreover have "\<not> ends_in_comment []" by (simp add: ends_in_comment_def split_lines_def)
  ultimately have "include_file ev (Suc d) env Angle p s = Finished s"
    using Cons.prems [of p]
    by (simp add: include_file_def search_path_def comment_check_def report_if_def)
  then show ?case using Cons by simp
qed

subsection \<open>Files marked by \<^verbatim>\<open>#pragma once\<close>\<close>

lemma resolve_Some:
  "resolve env k p = Some (f, tx) \<Longrightarrow> env (fst f) (snd f) = Some tx"
  by (cases k) (auto simp: search_path_def split: option.splits)

lemma has_once_simps [simp]:
  "has_once [] = False"
  "has_once (Blank # ls) = has_once ls"
  "has_once (Comment # ls) = has_once ls"
  "has_once (Code t # ls) = has_once ls"
  "has_once (Directive dr # ls) = (dr = Pragma_once \<or> has_once ls)"
  by (auto simp: has_once_def)

lemma once_files_kept [simp]:
  "once_files (report e s) = once_files s"
  "once_files (report_if b e s) = once_files s"
  "once_files (define_macro n body s) = once_files s"
  "once_files (undef_macro n s) = once_files s"
  "once_files (comment_check tx s) = once_files s"
  by (simp_all add: report_def report_if_def define_macro_def undef_macro_def comment_check_def)

lemma once_files_unterminated [simp]: "once_files (unterminated stk s) = once_files s"
  by (induction stk arbitrary: s) simp_all

lemma once_files_elif_errors [simp]: "once_files (elif_errors c v x s) = once_files s"
  by (cases c) simp

lemma once_files_else_errors [simp]: "once_files (else_errors c s) = once_files s"
  by (cases c) simp

text \<open>
  A file is marked only by its own \<^verbatim>\<open>#pragma once\<close>: after preprocessing, a marked
  file was marked before, or is the current file and has the directive, or is a file of
  the environment that has it.
\<close>

lemma pp_once_files:
  "f \<in> once_files (state_of (pp ev d env cur ls stk s)) \<Longrightarrow>
     f \<in> once_files s \<or> (f = cur \<and> has_once ls) \<or>
     (\<exists>txt. env (fst f) (snd f) = Some txt \<and> has_once (file_lines txt))"
proof (induction ev d env cur ls stk s rule: pp.induct)
  case (5 ev d env cur k p ls stk s)
  show ?case
  proof (cases "active stk")
    case False
    with 5 show ?thesis by simp
  next
    case act: True
    show ?thesis
    proof (cases "d = 0")
      case True
      with 5 act show ?thesis by simp
    next
      case d0: False
      show ?thesis
      proof (cases "resolve env k p")
        case None
        with "5.prems" act d0 show ?thesis by simp
      next
        case (Some ft)
        obtain g tx where ft: "ft = (g, tx)" by (cases ft)
        have rs: "resolve env k p = Some (g, tx)" using Some ft by simp
        have envg: "env (fst g) (snd g) = Some tx"
          using rs by (rule resolve_Some)
        show ?thesis
        proof (cases "g \<in> once_files s")
          case True
          with 5 act d0 rs show ?thesis by simp
        next
          case False
          have nested: "f \<in> once_files (state_of (pp ev (d - 1) env g (file_lines tx) [] s)) \<Longrightarrow>
              f \<in> once_files s \<or> f = g \<and> has_once (file_lines tx) \<or>
              (\<exists>txt. env (fst f) (snd f) = Some txt \<and> has_once (file_lines txt))"
            by (rule "5.IH"(4)[OF _ d0 rs refl False]) (simp_all add: act)
          show ?thesis
          proof (cases "pp ev (d - 1) env g (file_lines tx) [] s")
            case (Fatal s1)
            with "5.prems" act d0 rs False have "f \<in> once_files s1" by simp
            with nested Fatal envg show ?thesis by auto
          next
            case (Finished s1)
            with "5.prems" act d0 rs False
            have "f \<in> once_files (state_of (pp ev d env cur ls stk (comment_check tx s1)))"
              by simp
            then have "f \<in> once_files (comment_check tx s1) \<or> f = cur \<and> has_once ls \<or>
                (\<exists>txt. env (fst f) (snd f) = Some txt \<and> has_once (file_lines txt))"
              by (rule "5.IH"(5)[OF _ d0 rs refl False Finished, rotated]) (simp add: act)
            with nested Finished envg show ?thesis by auto
          qed
        qed
      qed
    qed
  qed
next
  case (9 ev d env cur x ls stk s)
  show ?case
  proof (cases stk)
    case Nil
    with 9 show ?thesis by auto
  next
    case (Cons c r)
    with "9.prems"
    have "f \<in> once_files (state_of (pp ev d env cur ls (elif_entry c (ev (macros s) x) # r)
               (elif_errors c (ev (macros s) x) x s)))"
      by simp
    with Cons have "f \<in> once_files (elif_errors c (ev (macros s) x) x s) \<or> f = cur \<and> has_once ls \<or>
        (\<exists>txt. env (fst f) (snd f) = Some txt \<and> has_once (file_lines txt))"
      by (rule "9.IH"(2))
    then show ?thesis by simp
  qed
next
  case (10 ev d env cur ls stk s)
  show ?case
  proof (cases stk)
    case Nil
    with 10 show ?thesis by auto
  next
    case (Cons c r)
    with "10.prems"
    have "f \<in> once_files (state_of (pp ev d env cur ls (else_entry c # r) (else_errors c s)))"
      by simp
    with Cons have "f \<in> once_files (else_errors c s) \<or> f = cur \<and> has_once ls \<or>
        (\<exists>txt. env (fst f) (snd f) = Some txt \<and> has_once (file_lines txt))"
      by (rule "10.IH"(2))
    then show ?thesis by simp
  qed
qed (auto split: if_splits list.splits)

lemma bridging_no_once: "\<not> has_once (file_lines libvlc_bridging_h)"
  by (simp add: bridging_lines)

lemma include_bridging:
  assumes "env Quote q = Some libvlc_bridging_h" and "(Quote, q) \<notin> once_files s"
  shows "include_file ev (Suc d) env Quote q s = include_all ev d env listed_paths s"
  using assms
  by (simp add: include_file_def pp_bridging comment_check_def report_if_def
        bridging_comment_closed split: outcome.splits)

lemma include_all_keeps_unmarked:
  assumes "env Quote q = Some libvlc_bridging_h" and "(Quote, q) \<notin> once_files s"
    and "include_all ev d env listed_paths s = Finished s1"
  shows "(Quote, q) \<notin> once_files s1"
proof
  assume m: "(Quote, q) \<in> once_files s1"
  have "pp ev d env (Quote, q) (file_lines libvlc_bridging_h) [] s = Finished s1"
    using assms(3) by (simp add: pp_bridging)
  then have "(Quote, q) \<in> once_files (state_of (pp ev d env (Quote, q) (file_lines libvlc_bridging_h) [] s))"
    using m by simp
  from pp_once_files [OF this] show False
    using assms(1,2) bridging_no_once by auto
qed

section \<open>The claims\<close>

text \<open>
  Claim C1. The file has an \<^verbatim>\<open>#include\<close> directive for each of the twelve headers
  that the specification lists, each of them once, and for no other header: the names
  of the included headers and the listed names are the same multiset, and no listed
  name is repeated.
\<close>

theorem includes_exactly_the_listed_headers:
  "mset (map basename (include_paths (directives (file_lines libvlc_bridging_h))))
     = mset spec_headers
   \<and> distinct spec_headers \<and> length spec_headers = 12"
  by (simp add: bridging_lines spec_headers_def basename_def)

text \<open>
  Claim C2. The twelve directives stand in the order in which the specification
  enumerates the headers, from \<^verbatim>\<open>libvlc.h\<close> to \<^verbatim>\<open>libvlc_version.h\<close>.
\<close>

theorem includes_in_listed_order:
  "map basename (include_paths (directives (file_lines libvlc_bridging_h))) = spec_headers"
  by (simp add: bridging_lines spec_headers_def basename_def)

text \<open>
  Claim C6. The repository has one source file, a header (its name ends in
  \<^verbatim>\<open>.h\<close>), of sixteen lines. The sixteenth line is not terminated: the file has
  fifteen newline characters.
\<close>

theorem sole_header_of_sixteen_lines:
  "length source_files = 1
   \<and> map (\<lambda>p. drop (length p - 2) p) source_files = [''.h'']
   \<and> length (split_lines libvlc_bridging_h) = 16
   \<and> count_list libvlc_bridging_h NL = 15
   \<and> last (split_lines libvlc_bridging_h) = ''#include <vlc/libvlc_version.h>''"
proof -
  have "count_list libvlc_bridging_h NL = 15" by code_simp
  then show ?thesis by (simp add: bridging_split source_files_def)
qed

text \<open>
  Claim C8. Each of the twelve directives has the form with angle brackets and a path
  that starts with \<^verbatim>\<open>vlc/\<close>; none has the quoted form. So every request of the file
  is answered by the search path alone, under \<^verbatim>\<open>vlc/\<close>, whatever files lie beside
  the including file.
\<close>

theorem includes_use_search_path:
  "directives (file_lines libvlc_bridging_h)
     = map (\<lambda>h. Include Angle (''vlc/'' @ h)) spec_headers
   \<and> filter (\<lambda>r. fst r = Quote) (requests (directives (file_lines libvlc_bridging_h))) = []
   \<and> map (\<lambda>r. resolve env (fst r) (snd r)) (requests (directives (file_lines libvlc_bridging_h)))
     = map (\<lambda>h. search_path env (''vlc/'' @ h)) spec_headers"
  by (simp add: bridging_lines spec_headers_def)

text \<open>
  Claim C3. Every line of the file is blank, part of a comment or an \<^verbatim>\<open>#include\<close>
  directive: no line is left over, no line is passed on to the compiler, and no
  directive is a conditional, a macro definition or a pragma. So the file brings in
  nothing of its own: when the included headers are empty, preprocessing the file
  leaves the macros, the marked files, the emitted text and the errors as they were.
\<close>

theorem only_comments_blanks_and_includes:
  "other_lines (file_lines libvlc_bridging_h) = []
   \<and> code_lines (file_lines libvlc_bridging_h) = []
   \<and> state_directives (directives (file_lines libvlc_bridging_h)) = []
   \<and> pp ev (Suc d) (\<lambda>k p. Some []) cur (file_lines libvlc_bridging_h) [] s = Finished s"
  by (simp add: pp_bridging include_all_empty) (simp add: bridging_lines)




text \<open>
  Claim C7. The file has no include guard and no \<^verbatim>\<open>#pragma once\<close>, and no other
  directive that reads or sets the state of the preprocessor. So in every state it
  expands to the same thing, the inclusion of the twelve headers in their order, and a
  translation unit that includes the file twice includes the twelve headers twice, the
  second time in the state that the first time has left. Whether a header is then
  seen once or twice is up to the header: with guarded headers each of their
  lines reaches the compiler once, with headers that have no guard twice.
\<close>

theorem no_guard_same_expansion:
  "state_directives (directives (file_lines libvlc_bridging_h)) = []
   \<and> \<not> has_once (file_lines libvlc_bridging_h)
   \<and> pp ev d env cur (file_lines libvlc_bridging_h) [] s = include_all ev d env listed_paths s
   \<and> (env Quote q = Some libvlc_bridging_h \<longrightarrow> (Quote, q) \<notin> once_files s \<longrightarrow>
        pp ev (Suc d) env tu [Directive (Include Quote q), Directive (Include Quote q)] [] s =
          (case include_all ev d env listed_paths s of
             Fatal s1 \<Rightarrow> Fatal s1
           | Finished s1 \<Rightarrow> include_all ev d env listed_paths s1))
   \<and> emitted_of (pp ev 200 (with_bridging installed) main_id include_twice [] initial_state)
       = map header_decl listed_paths
   \<and> emitted_of (pp ev 200 (with_bridging unguarded) main_id include_twice [] initial_state)
       = map header_decl listed_paths @ map header_decl listed_paths"
proof -
  have a: "state_directives (directives (file_lines libvlc_bridging_h)) = []"
    by (simp add: bridging_lines)
  have twice: "pp ev (Suc d) env tu [Directive (Include Quote q), Directive (Include Quote q)] [] s =
          (case include_all ev d env listed_paths s of
             Fatal s1 \<Rightarrow> Fatal s1
           | Finished s1 \<Rightarrow> include_all ev d env listed_paths s1)"
    if e: "env Quote q = Some libvlc_bridging_h" and u: "(Quote, q) \<notin> once_files s"
  proof -
    have first: "include_file ev (Suc d) env Quote q s = include_all ev d env listed_paths s"
      using e u by (rule include_bridging)
    show ?thesis
    proof (cases "include_all ev d env listed_paths s")
      case (Fatal s1)
      then show ?thesis
        by (simp del: pp.simps add: pp_Include first)
    next
      case (Finished s1)
      have "(Quote, q) \<notin> once_files s1"
        using e u Finished by (rule include_all_keeps_unmarked)
      with e have "include_file ev (Suc d) env Quote q s1 = include_all ev d env listed_paths s1"
        by (rule include_bridging)
      then show ?thesis
        by (simp del: pp.simps(5) add: pp_Include first Finished split: outcome.splits)
    qed
  qed
  have g: "emitted_of (pp ev 200 (with_bridging installed) main_id include_twice [] initial_state)
       = map header_decl listed_paths"
    by code_simp
  have n: "emitted_of (pp ev 200 (with_bridging unguarded) main_id include_twice [] initial_state)
       = map header_decl listed_paths @ map header_decl listed_paths"
    by code_simp
  show ?thesis using a bridging_no_once pp_bridging twice g n by blast
qed

text \<open>
  The theorem at a translation unit that includes the file twice, in a complete
  installation and from the initial state.
\<close>

theorem no_guard_same_expansion_witness:
  "with_bridging installed Quote ''libvlc_bridging.h'' = Some libvlc_bridging_h
   \<and> (Quote, ''libvlc_bridging.h'') \<notin> once_files initial_state
   \<and> pp gnu_eval 200 (with_bridging installed) main_id include_twice [] initial_state =
       (case include_all gnu_eval 199 (with_bridging installed) listed_paths initial_state of
          Fatal s1 \<Rightarrow> Fatal s1
        | Finished s1 \<Rightarrow> include_all gnu_eval 199 (with_bridging installed) listed_paths s1)"
proof -
  have e: "with_bridging installed Quote ''libvlc_bridging.h'' = Some libvlc_bridging_h"
    by (simp add: with_bridging_def)
  have u: "(Quote, ''libvlc_bridging.h'') \<notin> once_files initial_state"
    by (simp add: initial_state_def)
  show ?thesis
    using no_guard_same_expansion
      [of gnu_eval 199 "with_bridging installed" main_id initial_state "''libvlc_bridging.h''" main_id] e u
    by (simp add: include_twice_def)
qed

end
